theory Spec2Isabelle
  imports Complex_Main
begin

section \<open>JavaScript primitives used by the server\<close>

text \<open>
  Strings are lists of code units; the model covers the code units 0..255 (the Latin-1
  range), which is what \<^typ>\<open>char\<close> holds. \<open>length\<close> is JavaScript's \<open>.length\<close>.

  \<open>isSpace\<close> is the class \<open>\s\<close> of a regular expression and the set that \<open>trim()\<close>
  strips (both are WhiteSpace plus LineTerminator): TAB, LF, VT, FF, CR, SPACE and
  NO-BREAK SPACE are its members below 256.
\<close>

definition isSpace :: "char \<Rightarrow> bool" where
  "isSpace c = (c = CHR 0x09 \<or> c = CHR 0x0A \<or> c = CHR 0x0B \<or> c = CHR 0x0C \<or>
                c = CHR 0x0D \<or> c = CHR 0x20 \<or> c = CHR 0xA0)"

text \<open>The character class \<open>[.!?]\<close>.\<close>

definition isTerminator :: "char \<Rightarrow> bool" where
  "isTerminator c = (c = CHR ''.'' \<or> c = CHR ''!'' \<or> c = CHR ''?'')"

text \<open>\<open>String.prototype.trim\<close>: whitespace removed from both ends.\<close>

definition trim :: "string \<Rightarrow> string" where
  "trim s = rev (dropWhile isSpace (rev (dropWhile isSpace s)))"

text \<open>
  \<open>String.prototype.toLowerCase\<close> on the code units below 256: \<open>A\<close>..\<open>Z\<close> and the
  accented capitals 0xC0..0xDE (the multiplication sign 0xD7 apart) move up by 32.
\<close>

definition toLowerChar :: "char \<Rightarrow> char" where
  "toLowerChar c =
     (let n = (of_char c :: nat)
      in if (65 \<le> n \<and> n \<le> 90) \<or> (192 \<le> n \<and> n \<le> 222 \<and> n \<noteq> 215)
         then char_of (n + 32) else c)"

definition toLowerCase :: "string \<Rightarrow> string" where
  "toLowerCase s = map toLowerChar s"

text \<open>
  \<open>s.split(/[sep]+/)\<close>: the pieces of \<open>s\<close> between maximal runs of separator characters.
  \<open>cur\<close> is the piece being read. A run at the start or at the end of \<open>s\<close> leaves an empty
  piece there, and the empty string splits into one empty piece, as in JavaScript.
\<close>

function split_from :: "(char \<Rightarrow> bool) \<Rightarrow> string \<Rightarrow> string \<Rightarrow> string list" where
  "split_from sep cur [] = [cur]"
| "split_from sep cur (c # cs) =
     (if sep c then cur # split_from sep [] (dropWhile sep cs)
      else split_from sep (cur @ [c]) cs)"
  by pat_completeness auto
termination
  by (relation "measure (\<lambda>(sep, cur, s). length s)")
     (auto simp: less_Suc_eq_le length_dropWhile_le)

definition split_re :: "(char \<Rightarrow> bool) \<Rightarrow> string \<Rightarrow> string list" where
  "split_re sep s = split_from sep [] s"

text \<open>\<open>"word ".repeat(60)\<close>\<close>

definition repeat :: "string \<Rightarrow> nat \<Rightarrow> string" where
  "repeat s n = concat (replicate n s)"


subsection \<open>Numbers and the random source\<close>

text \<open>
  JavaScript numbers are doubles. The model holds their values as rationals and computes
  sums, differences, products and quotients exactly; the source rounds each result to
  the nearest double, so the two can differ in the last bit where the exact result is
  not a double.
  The product that \<open>Math.round\<close> receives is rounded to the nearest double in the model
  too (\<open>round1\<close>), since there the last bit can change the returned tenth.

  The result of a division is a \<open>jsnum\<close>, because a division by zero does not raise in
  JavaScript: it yields \<open>Infinity\<close> for a positive dividend and \<open>NaN\<close> for \<open>0 / 0\<close>. A
  comparison with \<open>NaN\<close> is false.
\<close>

datatype jsnum = Num rat | Infinity | NaN

definition js_div :: "nat \<Rightarrow> nat \<Rightarrow> jsnum" where
  "js_div a b = (if b = 0 then (if a = 0 then NaN else Infinity)
                 else Num (rat_of_nat a / rat_of_nat b))"

fun js_ge :: "jsnum \<Rightarrow> rat \<Rightarrow> bool" where
  "js_ge (Num x) c = (x \<ge> c)"
| "js_ge Infinity c = True"
| "js_ge NaN c = False"

fun js_gt :: "jsnum \<Rightarrow> rat \<Rightarrow> bool" where
  "js_gt (Num x) c = (x > c)"
| "js_gt Infinity c = True"
| "js_gt NaN c = False"

fun js_le :: "jsnum \<Rightarrow> rat \<Rightarrow> bool" where
  "js_le (Num x) c = (x \<le> c)"
| "js_le Infinity c = False"
| "js_le NaN c = False"

fun js_lt :: "jsnum \<Rightarrow> rat \<Rightarrow> bool" where
  "js_lt (Num x) c = (x < c)"
| "js_lt Infinity c = False"
| "js_lt NaN c = False"

text \<open>
  The random source: the sequence of the values that the successive calls of
  \<open>Math.random()\<close> return, each in \<open>[0, 1)\<close>. A call takes the first and leaves the rest.
\<close>

type_synonym rng = "nat \<Rightarrow> rat"

definition Math_random :: "rng \<Rightarrow> rat \<times> rng" where
  "Math_random g = (g 0, \<lambda>n. g (Suc n))"

definition draws_ok :: "rng \<Rightarrow> bool" where
  "draws_ok g = (\<forall>n. 0 \<le> g n \<and> g n < 1)"

text \<open>
  The double nearest to a rational, for the one place where the last bit of a product
  decides the result (the rounding of the overall score). \<open>scale_down\<close> and \<open>scale_up\<close>
  count the halvings and doublings that bring a positive number into \<open>[1, 2)\<close>, so that
  \<open>binade y\<close> is the exponent \<open>e\<close> with \<open>2^e \<le> y < 2^(e+1)\<close>; a double of that binade is a
  multiple of \<open>2^(e-52)\<close>, and the nearest one is taken, a tie going to the even
  multiple. Overflow and subnormal numbers are not modelled.
\<close>

function scale_down :: "rat \<Rightarrow> int" where
  "scale_down y = (if 2 \<le> y then scale_down (y / 2) + 1 else 0)"
  by pat_completeness auto
termination
proof (relation "measure (\<lambda>y. nat \<lfloor>y\<rfloor>)")
  show "wf (measure (\<lambda>y :: rat. nat \<lfloor>y\<rfloor>))"
    by simp
next
  fix y :: rat
  assume y: "2 \<le> y"
  then have "y / 2 \<le> y - 1"
    by simp
  then have "\<lfloor>y / 2\<rfloor> \<le> \<lfloor>y - 1\<rfloor>"
    by (rule floor_mono)
  moreover have "\<lfloor>y - 1\<rfloor> = \<lfloor>y\<rfloor> - 1"
    by simp
  moreover have "1 \<le> \<lfloor>y\<rfloor>"
    using y by (simp add: le_floor_iff)
  ultimately show "(y / 2, y) \<in> measure (\<lambda>y. nat \<lfloor>y\<rfloor>)"
    by simp
qed

function scale_up :: "rat \<Rightarrow> int" where
  "scale_up y = (if 0 < y \<and> y < 1 then scale_up (y * 2) + 1 else 0)"
  by pat_completeness auto
termination
proof (relation "measure (\<lambda>y. nat \<lceil>1 / y\<rceil>)")
  show "wf (measure (\<lambda>y :: rat. nat \<lceil>1 / y\<rceil>))"
    by simp
next
  fix y :: rat
  assume y: "0 < y \<and> y < 1"
  then have one: "1 < 1 / y"
    by simp
  then have c: "2 \<le> \<lceil>1 / y\<rceil>"
    by (simp add: le_ceiling_iff)
  have h: "1 / (y * 2) = (1 / y) / 2"
    by simp
  have "\<lceil>1 / (y * 2)\<rceil> < \<lceil>1 / y\<rceil>"
  proof (cases "1 / y \<le> 2")
    case True
    then have "1 / (y * 2) \<le> 1"
      using y by (simp add: field_simps)
    then have "\<lceil>1 / (y * 2)\<rceil> \<le> 1"
      by (simp only: ceiling_le_one)
    with c show ?thesis
      by linarith
  next
    case False
    then have "1 / (y * 2) \<le> 1 / y - 1"
      unfolding h by simp
    then have "\<lceil>1 / (y * 2)\<rceil> \<le> \<lceil>1 / y - 1\<rceil>"
      by (rule ceiling_mono)
    then show ?thesis
      by simp
  qed
  with c have "nat \<lceil>1 / (y * 2)\<rceil> < nat \<lceil>1 / y\<rceil>"
    by linarith
  then show "(y * 2, y) \<in> measure (\<lambda>y. nat \<lceil>1 / y\<rceil>)"
    by simp
qed

declare scale_down.simps [simp del] scale_up.simps [simp del]

definition binade :: "rat \<Rightarrow> int" where
  "binade y = (if 1 \<le> y then scale_down y else - scale_up y)"

definition pow2 :: "int \<Rightarrow> rat" where
  "pow2 e = (if 0 \<le> e then 2 ^ nat e else 1 / 2 ^ nat (- e))"

definition round_half_even :: "rat \<Rightarrow> int" where
  "round_half_even z =
     (let n = \<lfloor>z\<rfloor>; f = z - rat_of_int n
      in if f < 1 / 2 then n
         else if 1 / 2 < f then n + 1
         else if even n then n else n + 1)"

definition nearest_double :: "rat \<Rightarrow> rat" where
  "nearest_double y =
     (let a = \<bar>y\<bar>; ulp = pow2 (binade a - 52)
      in sgn y * (rat_of_int (round_half_even (a / ulp)) * ulp))"

text \<open>
  \<open>Math.round(x * 10) / 10\<close>: the product is a double, \<open>Math.round\<close> rounds it to the
  nearest integer, a half going upwards as with \<^const>\<open>round\<close>, and the quotient stands for
  the double nearest to that many tenths.
\<close>

definition round1 :: "rat \<Rightarrow> rat" where
  "round1 x = rat_of_int (round (nearest_double (x * 10))) / 10"


section \<open>The evaluation engine (\<open>evaluateEssayAI\<close>)\<close>

text \<open>The field \<open>structure\<close> is written \<open>structure'\<close>: the plain word is reserved.\<close>

record breakdown =
  grammar :: rat
  structure' :: rat
  coherence :: rat
  vocabulary :: rat
  arguments :: rat

record suggestion =
  original :: string
  improved :: string
  reason :: string

record results =
  overallScore :: rat
  breakdown :: breakdown
  strengths :: "string list"
  improvements :: "string list"
  suggestions :: "suggestion list"
  wordCount :: nat
  charCount :: nat
  readability :: string
  estimatedReadTime :: int

subsection \<open>The text features (the locals of lines 117 to 136)\<close>

text \<open>\<open>const wordCount = essayText.trim().split(/\s+/).length\<close>\<close>

definition wordCount_of :: "string \<Rightarrow> nat" where
  "wordCount_of essayText = length (split_re isSpace (trim essayText))"

text \<open>\<open>const sentences = essayText.split(/[.!?]+/).filter(s => s.trim().length > 0)\<close>\<close>

definition sentences_of :: "string \<Rightarrow> string list" where
  "sentences_of essayText =
     filter (\<lambda>s. length (trim s) > 0) (split_re isTerminator essayText)"

text \<open>\<open>const avgSentenceLength = wordCount / sentences.length\<close>\<close>

definition avgSentenceLength_of :: "string \<Rightarrow> jsnum" where
  "avgSentenceLength_of essayText =
     js_div (wordCount_of essayText) (length (sentences_of essayText))"

text \<open>\<open>const words = essayText.toLowerCase().split(/\s+/)\<close>: the text is not trimmed here.\<close>

definition words_of :: "string \<Rightarrow> string list" where
  "words_of essayText = split_re isSpace (toLowerCase essayText)"

text \<open>
  \<open>const uniqueWords = new Set(words)\<close> and
  \<open>const vocabularyRichness = uniqueWords.size / words.length\<close>
\<close>

definition vocabularyRichness_of :: "string \<Rightarrow> jsnum" where
  "vocabularyRichness_of essayText =
     (let words = words_of essayText;
          uniqueWords = remdups words
      in js_div (length uniqueWords) (length words))"

subsection \<open>The base score (lines 121 to 139)\<close>

definition baseScore_of :: "string \<Rightarrow> rat" where
  "baseScore_of essayText =
     (let wordCount = wordCount_of essayText;
          baseScore = 70;
          baseScore = (if wordCount \<ge> 300 \<and> wordCount \<le> 800 then baseScore + 10
                       else if wordCount < 100 then baseScore - 15
                       else baseScore);
          avgSentenceLength = avgSentenceLength_of essayText;
          baseScore = (if js_ge avgSentenceLength 15 \<and> js_le avgSentenceLength 25
                       then baseScore + 5 else baseScore);
          vocabularyRichness = vocabularyRichness_of essayText;
          baseScore = (if js_gt vocabularyRichness (6 / 10) then baseScore + 8 else baseScore)
      in baseScore)"

subsection \<open>Scores, feedback and the returned object (lines 141 to 215)\<close>

text \<open>
  The six draws are taken in the order of the source: the random factor, then grammar,
  structure, coherence, vocabulary and arguments. The breakdown is computed from the
  unrounded \<open>overallScore\<close>; only the returned field is rounded.
\<close>

definition evaluateEssayAI :: "string \<Rightarrow> rng \<Rightarrow> results \<times> rng" where
  "evaluateEssayAI essayText g0 =
     (let wordCount = wordCount_of essayText;
          charCount = length essayText;
          sentences = sentences_of essayText;
          baseScore = baseScore_of essayText;
          avgSentenceLength = avgSentenceLength_of essayText;
          vocabularyRichness = vocabularyRichness_of essayText;
          (r0, g1) = Math_random g0;
          randomFactor = r0 * 12 - 6;
          overallScore = max 50 (min 98 (baseScore + randomFactor));
          (r1, g2) = Math_random g1;
          (r2, g3) = Math_random g2;
          (r3, g4) = Math_random g3;
          (r4, g5) = Math_random g4;
          (r5, g6) = Math_random g5;
          breakdown = \<lparr>grammar = min 100 (overallScore + (r1 * 10 - 5)),
                       structure' = min 100 (overallScore + (r2 * 8 - 4)),
                       coherence = min 100 (overallScore + (r3 * 12 - 6)),
                       vocabulary = min 100 (overallScore + (r4 * 10 - 5)),
                       arguments = min 100 (overallScore + (r5 * 15 - 7))\<rparr>;
          strengths =
            (if grammar breakdown > 85 then [''Excellent grammar with minimal errors''] else []) @
            (if structure' breakdown > 80
             then [''Well-organized essay structure with clear progression''] else []) @
            (if wordCount > 500 then [''Comprehensive coverage of the topic''] else []) @
            (if js_gt vocabularyRichness (65 / 100)
             then [''Rich and varied vocabulary usage''] else []);
          improvements =
            (if coherence breakdown < 75
             then [''Improve logical flow between paragraphs''] else []) @
            (if js_gt avgSentenceLength 30
             then [''Consider breaking down complex sentences for clarity''] else []) @
            (if wordCount < 300
             then [''Expand arguments with more supporting evidence''] else []) @
            (if arguments breakdown < 80
             then [''Strengthen main arguments with specific examples''] else []);
          sampleSentences = take 3 sentences;
          suggestions =
            concat (map (\<lambda>(idx, sentence).
                      if idx = 0 \<and> length (trim sentence) < 80
                      then [\<lparr>original = trim sentence @ ''.'',
                             improved = ''Consider expanding your opening statement to provide more context and engage the reader immediately.'',
                             reason = ''Stronger opening statement''\<rparr>]
                      else [])
                    (enumerate 0 sampleSentences));
          readability =
            (if js_lt avgSentenceLength 15 then ''High School Level''
             else if js_gt avgSentenceLength 25 then ''Graduate Level''
             else ''College Level'')
      in (\<lparr>overallScore = round1 overallScore,
           breakdown = breakdown,
           strengths = (if length strengths > 0 then strengths
                        else [''Clear writing style'', ''Good effort in addressing the topic'']),
           improvements = (if length improvements > 0 then improvements
                           else [''Continue refining your arguments'',
                                 ''Consider adding more specific examples'']),
           suggestions = (if length suggestions > 0 then suggestions
                          else [\<lparr>original = ''Sample text for improvement'',
                                  improved = ''Enhanced version with better structure and vocabulary'',
                                  reason = ''Improved clarity and impact''\<rparr>]),
           wordCount = wordCount,
           charCount = charCount,
           readability = readability,
           estimatedReadTime = \<lceil>rat_of_nat wordCount / 200\<rceil>\<rparr>,
          g6))"

section \<open>The stored documents and the routes\<close>

text \<open>
  The \<open>results\<close> path of the schema lists \<open>overallScore\<close>, \<open>breakdown\<close>, \<open>strengths\<close>,
  \<open>improvements\<close>, \<open>suggestions\<close>, \<open>readability\<close> and \<open>estimatedReadTime\<close>; a document
  keeps these fields of the object it is given (the schema is strict) and holds the two
  counts at its top level. Timestamps are left out of the model.
\<close>

record essay_results =
  res_overallScore :: rat
  res_breakdown :: breakdown
  res_strengths :: "string list"
  res_improvements :: "string list"
  res_suggestions :: "suggestion list"
  res_readability :: string
  res_estimatedReadTime :: int

definition cast_results :: "results \<Rightarrow> essay_results" where
  "cast_results r =
     \<lparr>res_overallScore = overallScore r,
      res_breakdown = breakdown r,
      res_strengths = strengths r,
      res_improvements = improvements r,
      res_suggestions = suggestions r,
      res_readability = readability r,
      res_estimatedReadTime = estimatedReadTime r\<rparr>"

record essay =
  essay_id :: nat
  essay_text :: string
  essay_university :: string
  essay_level :: string
  essay_wordCount :: nat
  essay_charCount :: nat
  essay_results :: "essay_results option"
  essay_status :: string

text \<open>The validators of the schema: \<open>minlength: 10\<close> on \<open>text\<close>, the two \<open>enum\<close>s.\<close>

definition valid_text :: "string \<Rightarrow> bool" where
  "valid_text t = (length t \<ge> 10)"

definition valid_level :: "string \<Rightarrow> bool" where
  "valid_level l = (l = ''undergrad'' \<or> l = ''mba'')"

definition valid_status :: "string \<Rightarrow> bool" where
  "valid_status st = (st = ''draft'' \<or> st = ''evaluated'' \<or> st = ''archived'')"

definition validate :: "essay \<Rightarrow> bool" where
  "validate e = (valid_text (essay_text e) \<and> valid_level (essay_level e) \<and>
                 valid_status (essay_status e))"

text \<open>
  The fields of a request body that the routes read, each absent or a string.
  \<open>truthy\<close> is the test \<open>if (v)\<close>: an absent value and the empty string are falsy.
  \<open>or_else v d\<close> is \<open>v || d\<close>.
\<close>

record body =
  req_text :: "string option"
  req_university :: "string option"
  req_level :: "string option"
  req_status :: "string option"

fun truthy :: "string option \<Rightarrow> bool" where
  "truthy None = False"
| "truthy (Some v) = (v \<noteq> [])"

fun or_else :: "string option \<Rightarrow> string \<Rightarrow> string" where
  "or_else None d = d"
| "or_else (Some v) d = (if v = [] then d else v)"

text \<open>
  The state of the server: the collection in insertion order, the next identifier that
  \<open>new Essay\<close> assigns, and the random source.
\<close>

record server =
  essays :: "essay list"
  next_id :: nat
  random :: rng

text \<open>A response: the HTTP status, then \<open>data\<close> and \<open>message\<close>, or \<open>error\<close>.\<close>

datatype response =
    Success nat essay string
  | Done nat string
  | Failure nat string

subsection \<open>\<open>POST /api/essays/evaluate\<close> (lines 299 to 337)\<close>

text \<open>
  \<open>essay.save()\<close> validates the document against the schema; a document that fails is
  not written, the rejection is caught and answered with 500.
\<close>

definition post_evaluate :: "body \<Rightarrow> server \<Rightarrow> response \<times> server" where
  "post_evaluate b s =
     (if \<not> truthy (req_text b) \<or> length (trim (or_else (req_text b) [])) < 10
      then (Failure 400 ''Essay text must be at least 10 characters long'', s)
      else
        let text = or_else (req_text b) [];
            (results, g) = evaluateEssayAI text (random s);
            essay = \<lparr>essay_id = next_id s,
                     essay_text = text,
                     essay_university = or_else (req_university b) [],
                     essay_level = or_else (req_level b) ''undergrad'',
                     essay_wordCount = wordCount results,
                     essay_charCount = charCount results,
                     essay_results = Some (cast_results results),
                     essay_status = ''evaluated''\<rparr>;
            s1 = s\<lparr>next_id := Suc (next_id s), random := g\<rparr>
        in if validate essay
           then (Success 201 essay ''Essay evaluated successfully'',
                 s1\<lparr>essays := essays s1 @ [essay]\<rparr>)
           else (Failure 500 ''Failed to evaluate essay'', s1))"

subsection \<open>\<open>PUT /api/essays/:id\<close> (lines 339 to 380)\<close>

record updateData =
  upd_text :: "string option"
  upd_wordCount :: "nat option"
  upd_charCount :: "nat option"
  upd_university :: "string option"
  upd_level :: "string option"
  upd_status :: "string option"

definition build_updateData :: "body \<Rightarrow> updateData" where
  "build_updateData b =
     (let updateData = \<lparr>upd_text = None, upd_wordCount = None, upd_charCount = None,
                         upd_university = None, upd_level = None, upd_status = None\<rparr>;
          updateData =
            (if truthy (req_text b)
             then let text = or_else (req_text b) [];
                      wordCount = length (split_re isSpace (trim text))
                  in updateData\<lparr>upd_text := Some text,
                                  upd_wordCount := Some wordCount,
                                  upd_charCount := Some (length text)\<rparr>
             else updateData);
          updateData =
            (case req_university b of
               Some university \<Rightarrow> updateData\<lparr>upd_university := Some university\<rparr>
             | None \<Rightarrow> updateData);
          updateData =
            (if truthy (req_level b) then updateData\<lparr>upd_level := req_level b\<rparr>
             else updateData);
          updateData =
            (if truthy (req_status b) then updateData\<lparr>upd_status := req_status b\<rparr>
             else updateData)
      in updateData)"

text \<open>\<open>runValidators: true\<close>: the validators of the schema run on the fields being set.\<close>

definition update_valid :: "updateData \<Rightarrow> bool" where
  "update_valid u =
     ((case upd_text u of None \<Rightarrow> True | Some t \<Rightarrow> valid_text t) \<and>
      (case upd_level u of None \<Rightarrow> True | Some l \<Rightarrow> valid_level l) \<and>
      (case upd_status u of None \<Rightarrow> True | Some st \<Rightarrow> valid_status st))"

definition apply_update :: "updateData \<Rightarrow> essay \<Rightarrow> essay" where
  "apply_update u e =
     e\<lparr>essay_text := (case upd_text u of None \<Rightarrow> essay_text e | Some t \<Rightarrow> t),
       essay_wordCount := (case upd_wordCount u of None \<Rightarrow> essay_wordCount e | Some n \<Rightarrow> n),
       essay_charCount := (case upd_charCount u of None \<Rightarrow> essay_charCount e | Some n \<Rightarrow> n),
       essay_university :=
         (case upd_university u of None \<Rightarrow> essay_university e | Some v \<Rightarrow> v),
       essay_level := (case upd_level u of None \<Rightarrow> essay_level e | Some l \<Rightarrow> l),
       essay_status := (case upd_status u of None \<Rightarrow> essay_status e | Some st \<Rightarrow> st)\<rparr>"

text \<open>The first document with the identifier is replaced; \<open>new: true\<close> returns it updated.\<close>

fun update_first :: "nat \<Rightarrow> updateData \<Rightarrow> essay list \<Rightarrow> essay option \<times> essay list" where
  "update_first i u [] = (None, [])"
| "update_first i u (e # es) =
     (if essay_id e = i then (Some (apply_update u e), apply_update u e # es)
      else (case update_first i u es of (r, es') \<Rightarrow> (r, e # es')))"

datatype db_error = ValidationError

definition findByIdAndUpdate ::
    "nat \<Rightarrow> updateData \<Rightarrow> essay list \<Rightarrow> db_error + (essay option \<times> essay list)" where
  "findByIdAndUpdate i u es =
     (if update_valid u then Inr (update_first i u es) else Inl ValidationError)"

definition put_essay :: "nat \<Rightarrow> body \<Rightarrow> server \<Rightarrow> response \<times> server" where
  "put_essay i b s =
     (case findByIdAndUpdate i (build_updateData b) (essays s) of
        Inl err \<Rightarrow> (Failure 500 ''Failed to update essay'', s)
      | Inr (None, es) \<Rightarrow> (Failure 404 ''Essay not found'', s)
      | Inr (Some essay, es) \<Rightarrow>
          (Success 200 essay ''Essay updated successfully'', s\<lparr>essays := es\<rparr>))"

subsection \<open>\<open>DELETE /api/essays/:id\<close> (lines 382 to 405)\<close>

fun delete_first :: "nat \<Rightarrow> essay list \<Rightarrow> essay option \<times> essay list" where
  "delete_first i [] = (None, [])"
| "delete_first i (e # es) =
     (if essay_id e = i then (Some e, es)
      else (case delete_first i es of (r, es') \<Rightarrow> (r, e # es')))"

definition delete_essay :: "nat \<Rightarrow> server \<Rightarrow> response \<times> server" where
  "delete_essay i s =
     (case delete_first i (essays s) of
        (None, es) \<Rightarrow> (Failure 404 ''Essay not found'', s)
      | (Some essay, es) \<Rightarrow> (Done 200 ''Essay deleted successfully'', s\<lparr>essays := es\<rparr>))"

subsection \<open>The states the server can reach\<close>

definition init :: "rng \<Rightarrow> server" where
  "init g = \<lparr>essays = [], next_id = 0, random = g\<rparr>"

inductive reachable :: "server \<Rightarrow> bool" where
  r_init: "reachable (init g)"
| r_evaluate: "reachable s \<Longrightarrow> reachable (snd (post_evaluate b s))"
| r_update: "reachable s \<Longrightarrow> reachable (snd (put_essay i b s))"
| r_delete: "reachable s \<Longrightarrow> reachable (snd (delete_essay i s))"

section \<open>Definitions for the statements\<close>

subsection \<open>The unrounded score\<close>

text \<open>The local \<open>overallScore\<close> of line 142, before it is rounded for the result.\<close>

definition unrounded :: "string \<Rightarrow> rng \<Rightarrow> rat" where
  "unrounded essayText g = max 50 (min 98 (baseScore_of essayText + (g 0 * 12 - 6)))"

subsection \<open>The scoring steps in the words of the specification\<close>

text \<open>
  The base score from the three features, the clamp, the rounding to one decimal place,
  and the composition of the overall score from a base score and a perturbation.
\<close>

definition spec_baseScore :: "nat \<Rightarrow> jsnum \<Rightarrow> jsnum \<Rightarrow> rat" where
  "spec_baseScore wc avg vr =
     70 + (if 300 \<le> wc \<and> wc \<le> 800 then 10 else if wc < 100 then - 15 else 0)
        + (if js_ge avg 15 \<and> js_le avg 25 then 5 else 0)
        + (if js_gt vr (6 / 10) then 8 else 0)"




subsection \<open>Whitespace-delimited tokens in the words of the specification\<close>

text \<open>
  In the words of the specification, the word count is the number of whitespace-delimited
  tokens of the text: the number of its maximal runs of characters that are not
  whitespace. The flag of \<open>spec_token_count_from\<close> says that no token is being read, so that
  the next character that is not whitespace starts one. \<open>sep_runs\<close> counts the maximal
  runs of separators in the same way; its flag says that a run is being read.
\<close>

fun spec_token_count_from :: "bool \<Rightarrow> string \<Rightarrow> nat" where
  "spec_token_count_from p [] = 0"
| "spec_token_count_from p (c # cs) =
     (if isSpace c then spec_token_count_from True cs
      else (if p then 1 else 0) + spec_token_count_from False cs)"

definition spec_token_count :: "string \<Rightarrow> nat" where
  "spec_token_count s = spec_token_count_from True s"

fun sep_runs :: "(char \<Rightarrow> bool) \<Rightarrow> bool \<Rightarrow> string \<Rightarrow> nat" where
  "sep_runs sep p [] = 0"
| "sep_runs sep p (c # cs) =
     (if sep c then (if p then 0 else 1) + sep_runs sep True cs
      else sep_runs sep False cs)"

subsection \<open>The features in the words of the specification\<close>

text \<open>
  The tokens of a text are its maximal runs of characters that are not whitespace; the
  sentence count is the number of fragments between runs of \<open>.\<close>, \<open>!\<close> and \<open>?\<close> that are
  not blank, but never less than 1; the average sentence length is the word count
  divided by the sentence count; the vocabulary richness is the number of distinct
  case-folded tokens divided by the word count.
\<close>

fun spec_tokens_from :: "string \<Rightarrow> string \<Rightarrow> string list" where
  "spec_tokens_from cur [] = (if cur = [] then [] else [cur])"
| "spec_tokens_from cur (c # cs) =
     (if isSpace c then (if cur = [] then [] else [cur]) @ spec_tokens_from [] cs
      else spec_tokens_from (cur @ [c]) cs)"

definition spec_tokens :: "string \<Rightarrow> string list" where
  "spec_tokens s = spec_tokens_from [] s"




section \<open>The split and the word count\<close>

lemma sep_runs_dropWhile: "sep_runs sep True (dropWhile sep s) = sep_runs sep True s"
  by (induction s) auto

lemma length_split_from: "length (split_from sep cur s) = Suc (sep_runs sep False s)"
proof (induction sep cur s rule: split_from.induct)
  case (1 sep cur)
  show ?case by simp
next
  case (2 sep cur c cs)
  show ?case
  proof (cases "sep c")
    case True
    have "sep_runs sep False (dropWhile sep cs) = sep_runs sep True (dropWhile sep cs)"
    proof (cases "dropWhile sep cs")
      case Nil
      show ?thesis unfolding Nil by simp
    next
      case (Cons x xs)
      then have "\<not> sep x"
        using hd_dropWhile [of sep cs] by simp
      with Cons show ?thesis by simp
    qed
    with True 2 show ?thesis
      by (simp add: sep_runs_dropWhile)
  next
    case False
    with 2 show ?thesis by simp
  qed
qed

lemma runs_tokens:
  "s \<noteq> [] \<Longrightarrow> \<not> isSpace (last s) \<Longrightarrow>
     sep_runs isSpace False s = spec_token_count_from False s \<and>
     Suc (sep_runs isSpace True s) = spec_token_count_from True s"
proof (induction s)
  case Nil
  then show ?case by simp
next
  case (Cons c cs)
  show ?case
  proof (cases "cs = []")
    case True
    with Cons.prems show ?thesis by simp
  next
    case False
    with Cons have "sep_runs isSpace False cs = spec_token_count_from False cs \<and>
        Suc (sep_runs isSpace True cs) = spec_token_count_from True cs"
      by simp
    then show ?thesis by simp
  qed
qed

lemma spec_token_count_from_dropWhile:
  "spec_token_count_from True (dropWhile isSpace s) = spec_token_count_from True s"
  by (induction s) auto

lemma spec_token_count_from_spaces:
  "\<forall>c \<in> set b. isSpace c \<Longrightarrow> spec_token_count_from p (a @ b) = spec_token_count_from p a"
proof (induction a arbitrary: p)
  case Nil
  then show ?case by (induction b arbitrary: p) auto
next
  case (Cons c a)
  then show ?case by simp
qed

lemma spec_token_count_from_trailing:
  "spec_token_count_from p (rev (dropWhile isSpace (rev s))) = spec_token_count_from p s"
proof -
  have "s = rev (dropWhile isSpace (rev s)) @ rev (takeWhile isSpace (rev s))"
    by (metis rev_append rev_rev_ident takeWhile_dropWhile_id)
  moreover have "\<forall>c \<in> set (rev (takeWhile isSpace (rev s))). isSpace c"
    by (auto dest: set_takeWhileD)
  ultimately show ?thesis
    using spec_token_count_from_spaces
      [of "rev (takeWhile isSpace (rev s))" p "rev (dropWhile isSpace (rev s))"]
    by simp
qed

lemma spec_token_count_trim: "spec_token_count (trim s) = spec_token_count s"
  by (simp add: spec_token_count_def trim_def spec_token_count_from_trailing spec_token_count_from_dropWhile)

lemma last_dropWhile_same: "dropWhile P xs \<noteq> [] \<Longrightarrow> last (dropWhile P xs) = last xs"
  by (induction xs) auto

lemma trim_ends:
  assumes "trim s \<noteq> []"
  shows "\<not> isSpace (hd (trim s)) \<and> \<not> isSpace (last (trim s))"
proof -
  let ?d = "dropWhile isSpace s"
  let ?r = "dropWhile isSpace (rev ?d)"
  from assms have r: "?r \<noteq> []"
    by (simp add: trim_def)
  then have d: "?d \<noteq> []"
    by (metis dropWhile.simps(1) rev.simps(1))
  have "last (trim s) = hd ?r"
    using r by (simp add: trim_def last_rev)
  then have l: "\<not> isSpace (last (trim s))"
    using r hd_dropWhile [of isSpace "rev ?d"] by simp
  have "hd (trim s) = last ?r"
    using r by (simp add: trim_def hd_rev)
  also have "\<dots> = last (rev ?d)"
    using r by (rule last_dropWhile_same)
  also have "\<dots> = hd ?d"
    using d by (simp add: last_rev)
  finally have "\<not> isSpace (hd (trim s))"
    using d hd_dropWhile [of isSpace s] by simp
  with l show ?thesis by simp
qed

lemma wordCount_tokens:
  assumes "trim s \<noteq> []"
  shows "wordCount_of s = spec_token_count s"
proof -
  let ?t = "trim s"
  from assms obtain c cs where t: "?t = c # cs"
    by (cases ?t) auto
  have e: "\<not> isSpace c" "\<not> isSpace (last ?t)"
    using trim_ends [OF assms] t by simp_all
  have "wordCount_of s = Suc (sep_runs isSpace False ?t)"
    by (simp add: wordCount_of_def split_re_def length_split_from)
  also have "\<dots> = Suc (spec_token_count_from False ?t)"
    using runs_tokens [OF assms e(2)] by simp
  also have "\<dots> = spec_token_count_from True ?t"
    using e(1) by (simp add: t)
  also have "\<dots> = spec_token_count s"
    using spec_token_count_trim [of s] by (simp add: spec_token_count_def)
  finally show ?thesis .
qed

lemma wordCount_blank: "trim s = [] \<Longrightarrow> wordCount_of s = 1"
  by (simp add: wordCount_of_def split_re_def)

section \<open>The nearest double\<close>

lemma scale_down_nonneg: "0 \<le> scale_down y"
proof (induction y rule: scale_down.induct)
  case (1 y)
  show ?case
  proof (cases "2 \<le> y")
    case True
    with 1 show ?thesis
      by (subst scale_down.simps) simp
  next
    case False
    then show ?thesis
      by (subst scale_down.simps) simp
  qed
qed

lemma scale_down_le: "y < 2 ^ Suc n \<Longrightarrow> scale_down y \<le> int n"
proof (induction n arbitrary: y)
  case 0
  then show ?case
    by (subst scale_down.simps) simp
next
  case (Suc n)
  show ?case
  proof (cases "2 \<le> y")
    case True
    have "y / 2 < 2 ^ Suc n"
      using Suc.prems by simp
    then have "scale_down (y / 2) \<le> int n"
      by (rule Suc.IH)
    with True show ?thesis
      by (subst scale_down.simps) simp
  next
    case False
    then show ?thesis
      by (subst scale_down.simps) simp
  qed
qed

lemma round_half_even_bounds:
  "(rat_of_int a \<le> z \<longrightarrow> a \<le> round_half_even z) \<and>
   (z \<le> rat_of_int b \<longrightarrow> round_half_even z \<le> b)"
proof -
  have lo: "a \<le> round_half_even z" if "rat_of_int a \<le> z"
  proof -
    have "a \<le> \<lfloor>z\<rfloor>"
      using that by (simp add: le_floor_iff)
    then show ?thesis
      by (simp add: round_half_even_def Let_def)
  qed
  have hi: "round_half_even z \<le> b" if "z \<le> rat_of_int b"
  proof (cases "z = rat_of_int b")
    case True
    then show ?thesis
      by (simp add: round_half_even_def Let_def)
  next
    case False
    with that have "z < rat_of_int b"
      by simp
    then have "\<lfloor>z\<rfloor> < b"
      by (simp add: floor_less_iff)
    then show ?thesis
      by (simp add: round_half_even_def Let_def)
  qed
  show ?thesis
    using lo hi by blast
qed

lemma nearest_double_int_bounds:
  assumes "1 \<le> y" and "y < 2 ^ 53"
  shows "(rat_of_int a \<le> y \<longrightarrow> rat_of_int a \<le> nearest_double y) \<and>
         (y \<le> rat_of_int b \<longrightarrow> nearest_double y \<le> rat_of_int b)"
proof -
  define m where "m = nat (52 - scale_down y)"
  have d: "0 \<le> scale_down y \<and> scale_down y \<le> 52"
    using scale_down_nonneg [of y] scale_down_le [of y 52] assms(2) by simp
  then have ulp: "pow2 (binade y - 52) = 1 / 2 ^ m"
    using assms(1) by (auto simp: pow2_def binade_def m_def)
  have "\<bar>y\<bar> = y" "sgn y = 1"
    using assms(1) by simp_all
  then have nd: "nearest_double y = rat_of_int (round_half_even (y * 2 ^ m)) / 2 ^ m"
    by (simp add: nearest_double_def Let_def ulp)
  have lo: "rat_of_int a \<le> nearest_double y" if "rat_of_int a \<le> y"
  proof -
    have "rat_of_int (a * 2 ^ m) \<le> y * 2 ^ m"
      using that by simp
    then have "a * 2 ^ m \<le> round_half_even (y * 2 ^ m)"
      using round_half_even_bounds [of "a * 2 ^ m" "y * 2 ^ m"] by blast
    then have "rat_of_int (a * 2 ^ m) \<le> rat_of_int (round_half_even (y * 2 ^ m))"
      by (simp only: of_int_le_iff)
    then show ?thesis
      by (simp add: nd field_simps)
  qed
  have hi: "nearest_double y \<le> rat_of_int b" if "y \<le> rat_of_int b"
  proof -
    have "y * 2 ^ m \<le> rat_of_int (b * 2 ^ m)"
      using that by simp
    then have "round_half_even (y * 2 ^ m) \<le> b * 2 ^ m"
      using round_half_even_bounds [of _ "y * 2 ^ m" "b * 2 ^ m"] by blast
    then have "rat_of_int (round_half_even (y * 2 ^ m)) \<le> rat_of_int (b * 2 ^ m)"
      by (simp only: of_int_le_iff)
    then show ?thesis
      by (simp add: nd field_simps)
  qed
  show ?thesis
    using lo hi by blast
qed

lemma round1_bounds:
  assumes "50 \<le> x" and "x \<le> 98"
  shows "50 \<le> round1 x \<and> round1 x \<le> 98"
proof -
  have r: "1 \<le> x * 10" "x * 10 < 2 ^ 53"
    using assms by simp_all
  have "rat_of_int 500 \<le> nearest_double (x * 10)"
    using nearest_double_int_bounds [OF r, of 500] assms by simp
  moreover have "nearest_double (x * 10) \<le> rat_of_int 980"
    using nearest_double_int_bounds [OF r, of _ 980] assms by simp
  ultimately have "round (rat_of_int 500) \<le> round (nearest_double (x * 10))"
    "round (nearest_double (x * 10)) \<le> round (rat_of_int 980)"
    by (simp_all only: round_mono)
  then have "500 \<le> round (nearest_double (x * 10))" "round (nearest_double (x * 10)) \<le> 980"
    by (simp_all only: round_of_int)
  then have "rat_of_int 500 \<le> rat_of_int (round (nearest_double (x * 10)))"
    "rat_of_int (round (nearest_double (x * 10))) \<le> rat_of_int 980"
    by (simp_all only: of_int_le_iff)
  then show ?thesis
    by (simp add: round1_def)
qed

text \<open>
  The rounding follows the double product: a score just under 60.05 whose tenfold
  is nearer to the double 600.5 than to any other is returned as 60.1.
\<close>

lemma round1_follows_double_product:
  "4225643087868723 / 2 ^ 46 < (6005 / 100 :: rat) \<and>
   nearest_double (4225643087868723 / 2 ^ 46 * 10) = 6005 / 10 \<and>
   round1 (4225643087868723 / 2 ^ 46) = 601 / 10"
  by code_simp

lemma nearest_double_examples:
  "nearest_double 500 = 500 \<and> nearest_double (1 / 10) = 3602879701896397 / 2 ^ 55 \<and>
   nearest_double (- 3 / 4) = - 3 / 4 \<and> nearest_double 0 = 0 \<and>
   nearest_double (1 + 1 / 2 ^ 53) = 1 \<and> nearest_double (1 + 3 / 2 ^ 53) = 1 + 1 / 2 ^ 51"
  by code_simp

section \<open>Properties of the evaluation engine\<close>

lemma overallScore_eval:
  "overallScore (fst (evaluateEssayAI essayText g)) = round1 (unrounded essayText g)"
  by (simp add: evaluateEssayAI_def unrounded_def Let_def Math_random_def split_def)

lemma breakdown_eval:
  "breakdown (fst (evaluateEssayAI essayText g)) =
     \<lparr>grammar = min 100 (unrounded essayText g + (g 1 * 10 - 5)),
      structure' = min 100 (unrounded essayText g + (g 2 * 8 - 4)),
      coherence = min 100 (unrounded essayText g + (g 3 * 12 - 6)),
      vocabulary = min 100 (unrounded essayText g + (g 4 * 10 - 5)),
      arguments = min 100 (unrounded essayText g + (g 5 * 15 - 7))\<rparr>"
  by (simp add: evaluateEssayAI_def unrounded_def Let_def Math_random_def split_def
      numeral_eq_Suc)

lemma counts_eval:
  "wordCount (fst (evaluateEssayAI essayText g)) = wordCount_of essayText"
  "charCount (fst (evaluateEssayAI essayText g)) = length essayText"
  by (simp_all add: evaluateEssayAI_def Let_def split_def)

lemma rng_eval: "snd (evaluateEssayAI essayText g) = (\<lambda>n. g (n + 6))"
  by (simp add: evaluateEssayAI_def Let_def Math_random_def split_def numeral_eq_Suc)

lemma unrounded_bounds: "50 \<le> unrounded essayText g \<and> unrounded essayText g \<le> 98"
  by (simp add: unrounded_def)

text \<open>The base score is composed from the features of the engine as specified.\<close>

lemma baseScore_spec:
  "baseScore_of essayText =
     spec_baseScore (wordCount_of essayText) (avgSentenceLength_of essayText)
       (vocabularyRichness_of essayText)"
  by (simp add: baseScore_of_def spec_baseScore_def Let_def)

text \<open>
  Claim C1. For every text whose trimmed length is at least 10 and every sequence of
  draws in \<open>[0, 1)\<close>, the returned \<open>overallScore\<close> lies in \<open>[50, 98]\<close> and is a whole number
  of tenths, and each of the five breakdown values is at most 100.
\<close>

theorem score_bounds:
  assumes "10 \<le> length (trim essayText)" and "draws_ok g"
  shows "50 \<le> overallScore (fst (evaluateEssayAI essayText g)) \<and>
         overallScore (fst (evaluateEssayAI essayText g)) \<le> 98 \<and>
         (\<exists>k :: int. overallScore (fst (evaluateEssayAI essayText g)) = rat_of_int k / 10) \<and>
         grammar (breakdown (fst (evaluateEssayAI essayText g))) \<le> 100 \<and>
         structure' (breakdown (fst (evaluateEssayAI essayText g))) \<le> 100 \<and>
         coherence (breakdown (fst (evaluateEssayAI essayText g))) \<le> 100 \<and>
         vocabulary (breakdown (fst (evaluateEssayAI essayText g))) \<le> 100 \<and>
         arguments (breakdown (fst (evaluateEssayAI essayText g))) \<le> 100"
proof -
  have "50 \<le> round1 (unrounded essayText g) \<and> round1 (unrounded essayText g) \<le> 98"
    using unrounded_bounds round1_bounds by blast
  moreover have "\<exists>k :: int. round1 (unrounded essayText g) = rat_of_int k / 10"
    unfolding round1_def by blast
  ultimately show ?thesis
    by (simp add: overallScore_eval breakdown_eval)
qed

theorem score_bounds_witness:
  "10 \<le> length (trim ''I like cats'') \<and> draws_ok (\<lambda>n. 1 / 2) \<and>
   overallScore (fst (evaluateEssayAI ''I like cats'' (\<lambda>n. 1 / 2))) = 63 \<and>
   arguments (breakdown (fst (evaluateEssayAI ''I like cats'' (\<lambda>n. 1 / 2)))) \<le> 100"
proof -
  have t: "10 \<le> length (trim ''I like cats'')"
    by code_simp
  have d: "draws_ok (\<lambda>n. 1 / 2)"
    by (simp add: draws_ok_def)
  have v: "overallScore (fst (evaluateEssayAI ''I like cats'' (\<lambda>n. 1 / 2))) = 63"
    by code_simp
  show ?thesis
    using t d v score_bounds [OF t d] by simp
qed

lemma spec_tokens_from_length:
  "length (spec_tokens_from cur s) =
     (if cur = [] then spec_token_count_from True s
      else Suc (spec_token_count_from False s))"
  by (induction s arbitrary: cur) auto

lemma spec_tokens_length: "length (spec_tokens s) = spec_token_count s"
  by (simp add: spec_tokens_def spec_token_count_def spec_tokens_from_length)


text \<open>
  The perturbations of the breakdown, for draws in \<open>[0, 1)\<close>: grammar, structure,
  coherence and vocabulary add a value in \<open>[-h, h)\<close> with \<open>h\<close> = 5, 4, 6, 5 to the
  unrounded overall score; arguments adds \<open>15 r - 7\<close>, a value in \<open>[-7, 8)\<close>.
\<close>

lemma breakdown_perturbations:
  assumes "draws_ok g"
  shows "\<exists>d1 d2 d3 d4 d5.
           breakdown (fst (evaluateEssayAI essayText g)) =
             \<lparr>grammar = min 100 (unrounded essayText g + d1),
              structure' = min 100 (unrounded essayText g + d2),
              coherence = min 100 (unrounded essayText g + d3),
              vocabulary = min 100 (unrounded essayText g + d4),
              arguments = min 100 (unrounded essayText g + d5)\<rparr> \<and>
           - 5 \<le> d1 \<and> d1 < 5 \<and> - 4 \<le> d2 \<and> d2 < 4 \<and> - 6 \<le> d3 \<and> d3 < 6 \<and>
           - 5 \<le> d4 \<and> d4 < 5 \<and> - 7 \<le> d5 \<and> d5 < 8"
proof -
  have "0 \<le> g 1 \<and> g 1 < 1" "0 \<le> g 2 \<and> g 2 < 1" "0 \<le> g 3 \<and> g 3 < 1"
    "0 \<le> g 4 \<and> g 4 < 1" "0 \<le> g 5 \<and> g 5 < 1"
    using assms by (simp_all add: draws_ok_def)
  then have "- 5 \<le> g 1 * 10 - 5 \<and> g 1 * 10 - 5 < 5" "- 4 \<le> g 2 * 8 - 4 \<and> g 2 * 8 - 4 < 4"
    "- 6 \<le> g 3 * 12 - 6 \<and> g 3 * 12 - 6 < 6" "- 5 \<le> g 4 * 10 - 5 \<and> g 4 * 10 - 5 < 5"
    "- 7 \<le> g 5 * 15 - 7 \<and> g 5 * 15 - 7 < 8"
    by simp_all
  then show ?thesis
    using breakdown_eval [of essayText g] by blast
qed

text \<open>
  Claim C3, at a failing input. The text \<open>I like cats\<close> with the draws 1/2 for the random
  factor and 19/20 for the others: the unrounded overall score is 63 and the arguments
  value is 70.25, that is 63 plus a perturbation of 7.25, outside \<open>[-7, 7)\<close>.
\<close>

theorem arguments_perturbation_above_7:
  "10 \<le> length (trim ''I like cats'') \<and>
   draws_ok (\<lambda>n. if n = 0 then 1 / 2 else 19 / 20) \<and>
   unrounded ''I like cats'' (\<lambda>n. if n = 0 then 1 / 2 else 19 / 20) = 63 \<and>
   arguments (breakdown (fst (evaluateEssayAI ''I like cats''
      (\<lambda>n. if n = 0 then 1 / 2 else 19 / 20)))) = 63 + 29 / 4 \<and>
   (7 :: rat) < 29 / 4 \<and> (63 :: rat) + 29 / 4 < 100"
proof -
  have "10 \<le> length (trim ''I like cats'')"
    by code_simp
  moreover have "draws_ok (\<lambda>n. if n = 0 then 1 / 2 else 19 / 20)"
    by (simp add: draws_ok_def)
  moreover have "unrounded ''I like cats'' (\<lambda>n. if n = 0 then 1 / 2 else 19 / 20) = 63"
    by code_simp
  moreover have "arguments (breakdown (fst (evaluateEssayAI ''I like cats''
      (\<lambda>n. if n = 0 then 1 / 2 else 19 / 20)))) = 63 + 29 / 4"
    by code_simp
  ultimately show ?thesis
    by simp
qed

text \<open>
  Claim C4, at a failing input. A text of ten dots is accepted (its trimmed length is
  10); its split on \<open>[.!?]+\<close> leaves no non-empty fragment, the sentence count is 0 and
  not 1, and the average sentence length is \<open>1 / 0\<close>, which is \<open>Infinity\<close>: the result
  reports a graduate reading level and asks to break down complex sentences.
\<close>

theorem ten_dots_no_sentence:
  "10 \<le> length (trim ''..........'') \<and>
   wordCount_of ''..........'' = 1 \<and>
   length (sentences_of ''..........'') = 0 \<and>
   avgSentenceLength_of ''..........'' = Infinity \<and>
   avgSentenceLength_of ''..........'' \<noteq> js_div (wordCount_of ''..........'') 1 \<and>
   readability (fst (evaluateEssayAI ''..........'' (\<lambda>n. 0))) = ''Graduate Level'' \<and>
   ''Consider breaking down complex sentences for clarity''
     \<in> set (improvements (fst (evaluateEssayAI ''..........'' (\<lambda>n. 0))))"
proof -
  have "10 \<le> length (trim ''..........'')"
    by code_simp
  moreover have "wordCount_of ''..........'' = 1"
    by code_simp
  moreover have "length (sentences_of ''..........'') = 0"
    by code_simp
  moreover have "avgSentenceLength_of ''..........'' = Infinity"
    by code_simp
  moreover have "js_div 1 1 \<noteq> Infinity"
    by code_simp
  moreover have "readability (fst (evaluateEssayAI ''..........'' (\<lambda>n. 0))) = ''Graduate Level''"
    by code_simp
  moreover have "''Consider breaking down complex sentences for clarity''
     \<in> set (improvements (fst (evaluateEssayAI ''..........'' (\<lambda>n. 0))))"
    by code_simp
  ultimately show ?thesis
    by simp
qed

text \<open>
  Claim C5, at a failing input. \<open>aa aa aa bb cc\<close> has 5 words, 3 of them distinct: its
  richness is 3/5. With one leading space the word count is still 5, but the richness
  is 4/6: the untrimmed split yields an empty first piece, which is counted both as a
  word and as a distinct word. The two texts differ only in leading whitespace, and the
  second alone receives the vocabulary bonus.
\<close>

theorem leading_space_changes_richness:
  "10 \<le> length (trim '' aa aa aa bb cc'') \<and>
   trim '' aa aa aa bb cc'' = trim ''aa aa aa bb cc'' \<and>
   wordCount_of '' aa aa aa bb cc'' = 5 \<and>
   wordCount_of ''aa aa aa bb cc'' = 5 \<and>
   words_of '' aa aa aa bb cc'' = ['''', ''aa'', ''aa'', ''aa'', ''bb'', ''cc''] \<and>
   vocabularyRichness_of ''aa aa aa bb cc'' = Num (3 / 5) \<and>
   vocabularyRichness_of '' aa aa aa bb cc'' = Num (2 / 3) \<and>
   baseScore_of ''aa aa aa bb cc'' = 55 \<and>
   baseScore_of '' aa aa aa bb cc'' = 63"
proof -
  have "10 \<le> length (trim '' aa aa aa bb cc'')"
    by code_simp
  moreover have "trim '' aa aa aa bb cc'' = trim ''aa aa aa bb cc''"
    by code_simp
  moreover have "wordCount_of '' aa aa aa bb cc'' = 5" "wordCount_of ''aa aa aa bb cc'' = 5"
    by code_simp+
  moreover have "words_of '' aa aa aa bb cc'' = ['''', ''aa'', ''aa'', ''aa'', ''bb'', ''cc'']"
    by code_simp
  moreover have "vocabularyRichness_of ''aa aa aa bb cc'' = Num (3 / 5)"
    "vocabularyRichness_of '' aa aa aa bb cc'' = Num (2 / 3)"
    by code_simp+
  moreover have "baseScore_of ''aa aa aa bb cc'' = 55" "baseScore_of '' aa aa aa bb cc'' = 63"
    by code_simp+
  ultimately show ?thesis
    by simp
qed

text \<open>
  Claim C7, as amended. \<open>"word ".repeat(60)\<close> has 60 words, so with every draw equal to 0
  the base score is 70 - 15 = 55 with no sentence-length and no vocabulary bonus, the
  perturbation is \<open>0 * 12 - 6 = -6\<close>, and the overall score is 50 (49 clamped). The
  source that returns 0 for ever is left as it was, and a second evaluation of the text
  gives the same result. With every draw equal to 1/2 the perturbation is zero and the
  overall score is 55.
\<close>

theorem sixty_words_fixed_source:
  "wordCount_of (repeat ''word '' 60) = 60 \<and>
   length (sentences_of (repeat ''word '' 60)) = 1 \<and>
   vocabularyRichness_of (repeat ''word '' 60) = Num (2 / 61) \<and>
   baseScore_of (repeat ''word '' 60) = 70 - 15 \<and>
   unrounded (repeat ''word '' 60) (\<lambda>n. 0) = 50 \<and>
   overallScore (fst (evaluateEssayAI (repeat ''word '' 60) (\<lambda>n. 0))) = 50 \<and>
   snd (evaluateEssayAI (repeat ''word '' 60) (\<lambda>n. 0)) = (\<lambda>n. 0) \<and>
   fst (evaluateEssayAI (repeat ''word '' 60)
          (snd (evaluateEssayAI (repeat ''word '' 60) (\<lambda>n. 0)))) =
     fst (evaluateEssayAI (repeat ''word '' 60) (\<lambda>n. 0)) \<and>
   overallScore (fst (evaluateEssayAI (repeat ''word '' 60) (\<lambda>n. 1 / 2))) = 55"
proof -
  have "wordCount_of (repeat ''word '' 60) = 60"
    by code_simp
  moreover have "length (sentences_of (repeat ''word '' 60)) = 1"
    by code_simp
  moreover have "vocabularyRichness_of (repeat ''word '' 60) = Num (2 / 61)"
    by code_simp
  moreover have "baseScore_of (repeat ''word '' 60) = 70 - 15"
    by code_simp
  moreover have "unrounded (repeat ''word '' 60) (\<lambda>n. 0) = 50"
    by code_simp
  moreover have "overallScore (fst (evaluateEssayAI (repeat ''word '' 60) (\<lambda>n. 0))) = 50"
    by code_simp
  moreover have r: "snd (evaluateEssayAI (repeat ''word '' 60) (\<lambda>n. 0)) = (\<lambda>n. 0)"
    by (simp add: rng_eval)
  moreover have "overallScore (fst (evaluateEssayAI (repeat ''word '' 60) (\<lambda>n. 1 / 2))) = 55"
    by code_simp
  ultimately show ?thesis
    by (simp only: r)
qed

text \<open>
  Claim C7, as stated, fails: the base score of \<open>"word ".repeat(60)\<close> is none of 80, 85,
  88 and 93, and a draw of 0 does not give a zero perturbation.
\<close>

theorem sixty_words_base_not_80:
  "baseScore_of (repeat ''word '' 60) \<notin> {80, 80 + 5, 80 + 8, 80 + 5 + 8} \<and>
   fst (Math_random (\<lambda>n. 0)) * 12 - 6 \<noteq> 0"
proof -
  have "baseScore_of (repeat ''word '' 60) = 55"
    by code_simp
  then show ?thesis
    by (simp add: Math_random_def)
qed

section \<open>Properties of the routes\<close>

lemma trim_length_le: "length (trim t) \<le> length t"
proof -
  have "length (dropWhile isSpace (rev (dropWhile isSpace t))) \<le>
          length (rev (dropWhile isSpace t))"
    by (rule length_dropWhile_le)
  also have "\<dots> \<le> length t"
    by (simp add: length_dropWhile_le)
  finally show ?thesis
    by (simp add: trim_def)
qed

lemma apply_update_frame:
  "essay_id (apply_update u e) = essay_id e"
  "essay_results (apply_update u e) = essay_results e"
  by (simp_all add: apply_update_def)

lemma update_first_found:
  "find (\<lambda>e. essay_id e = i) es = Some e \<Longrightarrow>
     fst (update_first i u es) = Some (apply_update u e) \<and>
     find (\<lambda>e. essay_id e = i) (snd (update_first i u es)) = Some (apply_update u e)"
  by (induction es) (auto simp: apply_update_frame split: prod.splits)

lemma update_first_missing:
  "find (\<lambda>e. essay_id e = i) es = None \<Longrightarrow> update_first i u es = (None, es)"
  by (induction es) (auto split: prod.splits if_splits)

lemma update_first_results:
  "map essay_results (snd (update_first i u es)) = map essay_results es"
  by (induction es) (auto simp: apply_update_frame split: prod.splits)

lemma update_first_pointwise:
  "list_all2 (\<lambda>e e'. e' = e \<or> e' = apply_update u e) es (snd (update_first i u es))"
  by (induction es) (auto simp: list_all2_same split: prod.splits)

lemma update_first_returned:
  "fst (update_first i u es) = Some e' \<Longrightarrow>
     \<exists>e. find (\<lambda>e. essay_id e = i) es = Some e \<and> e' = apply_update u e"
  by (induction es) (auto split: prod.splits if_splits)

lemma put_essay_frame:
  "map essay_results (essays (snd (put_essay i b s))) = map essay_results (essays s) \<and>
   random (snd (put_essay i b s)) = random s \<and>
   next_id (snd (put_essay i b s)) = next_id s"
proof (cases "update_first i (build_updateData b) (essays s)")
  case (Pair r es)
  then have "map essay_results es = map essay_results (essays s)"
    using update_first_results [of i "build_updateData b" "essays s"] by simp
  with Pair show ?thesis
    by (simp add: put_essay_def findByIdAndUpdate_def split: option.splits)
qed

lemma put_essay_success:
  assumes "find (\<lambda>e. essay_id e = i) (essays s) = Some e"
    and "update_valid (build_updateData b)"
  shows "fst (put_essay i b s) =
           Success 200 (apply_update (build_updateData b) e) ''Essay updated successfully'' \<and>
         find (\<lambda>e. essay_id e = i) (essays (snd (put_essay i b s))) =
           Some (apply_update (build_updateData b) e)"
proof (cases "update_first i (build_updateData b) (essays s)")
  case (Pair r es)
  then have "r = Some (apply_update (build_updateData b) e)"
    "find (\<lambda>e. essay_id e = i) es = Some (apply_update (build_updateData b) e)"
    using update_first_found [OF assms(1), of "build_updateData b"] by simp_all
  with Pair assms(2) show ?thesis
    by (simp add: put_essay_def findByIdAndUpdate_def)
qed

lemma put_essay_returned:
  assumes "fst (put_essay i b s) = Success c e' m"
  shows "\<exists>e. find (\<lambda>e. essay_id e = i) (essays s) = Some e \<and>
              e' = apply_update (build_updateData b) e"
proof (cases "update_first i (build_updateData b) (essays s)")
  case (Pair r es)
  with assms have "r = Some e'"
    by (auto simp: put_essay_def findByIdAndUpdate_def split: if_splits option.splits)
  with Pair show ?thesis
    using update_first_returned [of i "build_updateData b" "essays s" e'] by simp
qed

lemma put_essay_pointwise:
  "list_all2 (\<lambda>e e'. e' = e \<or> e' = apply_update (build_updateData b) e \<and>
                 update_valid (build_updateData b))
     (essays s) (essays (snd (put_essay i b s)))"
proof (cases "update_first i (build_updateData b) (essays s)")
  case (Pair r es)
  then have p: "list_all2 (\<lambda>e e'. e' = e \<or> e' = apply_update (build_updateData b) e)
                  (essays s) es"
    using update_first_pointwise [of "build_updateData b" "essays s" i] by simp
  show ?thesis
  proof (cases "update_valid (build_updateData b)")
    case True
    with Pair p show ?thesis
      by (cases r) (simp_all add: put_essay_def findByIdAndUpdate_def list_all2_same)
  next
    case False
    with Pair show ?thesis
      by (simp add: put_essay_def findByIdAndUpdate_def list_all2_same)
  qed
qed

lemma delete_first_subset: "set (snd (delete_first i es)) \<subseteq> set es"
  by (induction es) (auto split: prod.splits)

lemma delete_essay_subset: "set (essays (snd (delete_essay i s))) \<subseteq> set (essays s)"
proof (cases "delete_first i (essays s)")
  case (Pair r es)
  then have "set es \<subseteq> set (essays s)"
    using delete_first_subset [of i "essays s"] by simp
  with Pair show ?thesis
    by (cases r) (simp_all add: delete_essay_def)
qed

lemma post_evaluate_essays:
  "essays (snd (post_evaluate b s)) = essays s \<or>
   (\<exists>e. essays (snd (post_evaluate b s)) = essays s @ [e] \<and>
        fst (post_evaluate b s) = Success 201 e ''Essay evaluated successfully'' \<and>
        essay_results e \<noteq> None \<and> essay_status e = ''evaluated'' \<and> validate e)"
  by (simp add: post_evaluate_def Let_def split_def)

lemma post_evaluate_returned:
  "fst (post_evaluate b s) = Success c e m \<Longrightarrow>
     essays (snd (post_evaluate b s)) = essays s @ [e] \<and>
     essay_results e \<noteq> None \<and> essay_status e = ''evaluated''"
  by (auto simp: post_evaluate_def Let_def split_def split: if_splits)

text \<open>
  Claim C6, as amended. A request whose text is absent, empty or shorter than 10
  characters after trimming is answered 400 and leaves the state as it was. A request
  whose text has a trimmed length of at least 10 and whose level is absent, empty,
  \<open>undergrad\<close> or \<open>mba\<close> appends exactly one document to the collection, holding the
  text, the counts, the assessment of the engine and the status \<open>evaluated\<close>, and is
  answered 201 with that document. With any other level the document fails the
  validation of the schema: the answer is 500 and the collection is unchanged.
\<close>

theorem evaluate_route:
  "(req_text b = None \<or> (\<exists>t. req_text b = Some t \<and> length (trim t) < 10) \<longrightarrow>
      post_evaluate b s =
        (Failure 400 ''Essay text must be at least 10 characters long'', s)) \<and>
   (req_text b = Some t \<and> 10 \<le> length (trim t) \<and>
    valid_level (or_else (req_level b) ''undergrad'') \<longrightarrow>
      (\<exists>e. fst (post_evaluate b s) = Success 201 e ''Essay evaluated successfully'' \<and>
           essays (snd (post_evaluate b s)) = essays s @ [e] \<and>
           essay_id e = next_id s \<and>
           essay_text e = t \<and>
           essay_wordCount e = wordCount_of t \<and>
           essay_charCount e = length t \<and>
           essay_results e = Some (cast_results (fst (evaluateEssayAI t (random s)))) \<and>
           essay_status e = ''evaluated'')) \<and>
   (req_text b = Some t \<and> 10 \<le> length (trim t) \<and>
    \<not> valid_level (or_else (req_level b) ''undergrad'') \<longrightarrow>
      fst (post_evaluate b s) = Failure 500 ''Failed to evaluate essay'' \<and>
      essays (snd (post_evaluate b s)) = essays s)"
proof -
  have short: "post_evaluate b s =
      (Failure 400 ''Essay text must be at least 10 characters long'', s)"
    if "req_text b = None \<or> (\<exists>t. req_text b = Some t \<and> length (trim t) < 10)"
    using that by (auto simp: post_evaluate_def)
  have long: "t \<noteq> [] \<and> valid_text t" if "10 \<le> length (trim t)"
    using that trim_length_le [of t] by (auto simp: valid_text_def)
  have created: "\<exists>e. fst (post_evaluate b s) = Success 201 e ''Essay evaluated successfully'' \<and>
           essays (snd (post_evaluate b s)) = essays s @ [e] \<and>
           essay_id e = next_id s \<and>
           essay_text e = t \<and>
           essay_wordCount e = wordCount_of t \<and>
           essay_charCount e = length t \<and>
           essay_results e = Some (cast_results (fst (evaluateEssayAI t (random s)))) \<and>
           essay_status e = ''evaluated''"
    if "req_text b = Some t \<and> 10 \<le> length (trim t) \<and>
        valid_level (or_else (req_level b) ''undergrad'')"
    using that long
    by (simp add: post_evaluate_def Let_def split_def validate_def valid_status_def
        counts_eval)
  have rejected: "fst (post_evaluate b s) = Failure 500 ''Failed to evaluate essay'' \<and>
      essays (snd (post_evaluate b s)) = essays s"
    if "req_text b = Some t \<and> 10 \<le> length (trim t) \<and>
        \<not> valid_level (or_else (req_level b) ''undergrad'')"
    using that long
    by (simp add: post_evaluate_def Let_def split_def validate_def)
  show ?thesis
    using short created rejected by blast
qed

theorem evaluate_route_witness:
  "post_evaluate \<lparr>req_text = Some ''hi'', req_university = None, req_level = None,
                   req_status = None\<rparr> (init (\<lambda>n. 0)) =
     (Failure 400 ''Essay text must be at least 10 characters long'', init (\<lambda>n. 0)) \<and>
   (\<exists>e. essays (snd (post_evaluate \<lparr>req_text = Some ''I like cats'', req_university = None,
                       req_level = Some ''mba'', req_status = None\<rparr> (init (\<lambda>n. 0)))) = [e] \<and>
        essay_text e = ''I like cats'' \<and> essay_wordCount e = 3 \<and>
        essay_status e = ''evaluated'') \<and>
   essays (snd (post_evaluate \<lparr>req_text = Some ''I like cats'', req_university = None,
                  req_level = Some ''phd'', req_status = None\<rparr> (init (\<lambda>n. 0)))) = []"
proof -
  have l: "length (trim ''hi'') < 10" "10 \<le> length (trim ''I like cats'')"
    by code_simp+
  have w: "wordCount_of ''I like cats'' = 3"
    by code_simp
  have v: "valid_level ''mba''" "\<not> valid_level ''phd''"
    by (simp_all add: valid_level_def)
  show ?thesis
    using l w v
      evaluate_route [where b = "\<lparr>req_text = Some ''hi'', req_university = None,
                                  req_level = None, req_status = None\<rparr>"
                         and t = "''I like cats''" and s = "init (\<lambda>n. 0)"]
      evaluate_route [where b = "\<lparr>req_text = Some ''I like cats'', req_university = None,
                                  req_level = Some ''mba'', req_status = None\<rparr>"
                         and t = "''I like cats''" and s = "init (\<lambda>n. 0)"]
      evaluate_route [where b = "\<lparr>req_text = Some ''I like cats'', req_university = None,
                                  req_level = Some ''phd'', req_status = None\<rparr>"
                         and t = "''I like cats''" and s = "init (\<lambda>n. 0)"]
    by (auto simp: init_def)
qed

text \<open>
  Claim C6, as stated, fails: a text of trimmed length 11 sent with the level \<open>phd\<close> is
  answered 500 and no document is created.
\<close>

theorem evaluate_invalid_level_creates_nothing:
  "10 \<le> length (trim ''I like cats'') \<and>
   fst (post_evaluate \<lparr>req_text = Some ''I like cats'', req_university = None,
          req_level = Some ''phd'', req_status = None\<rparr> (init (\<lambda>n. 0))) =
     Failure 500 ''Failed to evaluate essay'' \<and>
   essays (snd (post_evaluate \<lparr>req_text = Some ''I like cats'', req_university = None,
          req_level = Some ''phd'', req_status = None\<rparr> (init (\<lambda>n. 0)))) = []"
proof -
  have "10 \<le> length (trim ''I like cats'')"
    by code_simp
  then show ?thesis
    by (simp add: post_evaluate_def Let_def split_def validate_def valid_level_def init_def)
qed

lemma build_updateData_fields:
  "upd_text (build_updateData b) =
     (if truthy (req_text b) then Some (or_else (req_text b) []) else None)"
  "upd_wordCount (build_updateData b) =
     (if truthy (req_text b) then Some (wordCount_of (or_else (req_text b) [])) else None)"
  "upd_charCount (build_updateData b) =
     (if truthy (req_text b) then Some (length (or_else (req_text b) [])) else None)"
  "upd_university (build_updateData b) = req_university b"
  "upd_level (build_updateData b) = (if truthy (req_level b) then req_level b else None)"
  "upd_status (build_updateData b) = (if truthy (req_status b) then req_status b else None)"
  by (simp_all add: build_updateData_def wordCount_of_def Let_def split: option.splits)

lemma update_valid_iff:
  "update_valid (build_updateData b) =
     ((\<not> truthy (req_text b) \<or> valid_text (or_else (req_text b) [])) \<and>
      valid_level (or_else (req_level b) ''undergrad'') \<and>
      valid_status (or_else (req_status b) ''draft''))"
proof -
  have l: "(case (if truthy v then v else None) of None \<Rightarrow> True | Some l \<Rightarrow> valid_level l) =
           valid_level (or_else v ''undergrad'')" for v
    by (cases v) (auto simp: valid_level_def)
  have st: "(case (if truthy v then v else None) of None \<Rightarrow> True | Some l \<Rightarrow> valid_status l) =
           valid_status (or_else v ''draft'')" for v
    by (cases v) (auto simp: valid_status_def)
  show ?thesis
    by (simp add: update_valid_def build_updateData_fields l st)
qed

lemma list_all2_in_set:
  "list_all2 P xs ys \<Longrightarrow> y \<in> set ys \<Longrightarrow> \<exists>x \<in> set xs. P x y"
  by (induction rule: list_all2_induct) auto

lemma apply_update_status:
  "update_valid u \<Longrightarrow> valid_status (essay_status e) \<Longrightarrow>
     valid_status (essay_status (apply_update u e))"
  by (auto simp: apply_update_def update_valid_def split: option.splits)

lemma reachable_docs:
  "reachable s \<Longrightarrow>
     \<forall>e \<in> set (essays s). essay_results e \<noteq> None \<and> valid_status (essay_status e)"
proof (induction rule: reachable.induct)
  case (r_init g)
  show ?case
    by (simp add: init_def)
next
  case (r_evaluate s b)
  then show ?case
    using post_evaluate_essays [of b s] by (auto simp: validate_def)
next
  case (r_update s i b)
  show ?case
  proof
    fix e'
    assume "e' \<in> set (essays (snd (put_essay i b s)))"
    then obtain e where e: "e \<in> set (essays s)"
      and c: "e' = e \<or> e' = apply_update (build_updateData b) e \<and>
                update_valid (build_updateData b)"
      using list_all2_in_set [OF put_essay_pointwise] by blast
    from e r_update.IH have "essay_results e \<noteq> None \<and> valid_status (essay_status e)"
      by blast
    with c show "essay_results e' \<noteq> None \<and> valid_status (essay_status e')"
      by (auto simp: apply_update_frame apply_update_status)
  qed
next
  case (r_delete s i)
  then show ?case
    using delete_essay_subset [of i s] by blast
qed

text \<open>
  Claim C8, as amended. For a stored document and an update request whose text has at
  least 10 characters (and whose level and status, if given and not empty, are values of
  their enumerations), the update stores the new text, the word count of the new text as
  the engine counts it (the number of whitespace-delimited tokens, for a text that is
  not all whitespace) and the length of the new text; the assessment of the document and
  of every other document is unchanged, and no draw is taken from the random source.
  Every request whose text is not empty and shorter than 10 characters is answered 500
  and leaves the whole state as it was, whatever the identifier and the other fields.
\<close>

theorem update_text:
  "(find (\<lambda>e. essay_id e = i) (essays s) = Some e \<and> req_text b = Some t \<and>
    10 \<le> length t \<and> valid_level (or_else (req_level b) ''undergrad'') \<and>
    valid_status (or_else (req_status b) ''draft'') \<longrightarrow>
      (\<exists>e'. fst (put_essay i b s) = Success 200 e' ''Essay updated successfully'' \<and>
           find (\<lambda>e. essay_id e = i) (essays (snd (put_essay i b s))) = Some e' \<and>
           essay_text e' = t \<and>
           essay_wordCount e' = wordCount_of t \<and>
           essay_wordCount e' = length (split_re isSpace (trim t)) \<and>
           (trim t \<noteq> [] \<longrightarrow> essay_wordCount e' = spec_token_count t) \<and>
           essay_charCount e' = length t \<and>
           essay_results e' = essay_results e \<and>
           map essay_results (essays (snd (put_essay i b s))) = map essay_results (essays s) \<and>
           random (snd (put_essay i b s)) = random s)) \<and>
   (req_text b = Some t \<and> t \<noteq> [] \<and> length t < 10 \<longrightarrow>
      put_essay i b s = (Failure 500 ''Failed to update essay'', s))"
proof -
  have accepted:
    "\<exists>e'. fst (put_essay i b s) = Success 200 e' ''Essay updated successfully'' \<and>
           find (\<lambda>e. essay_id e = i) (essays (snd (put_essay i b s))) = Some e' \<and>
           essay_text e' = t \<and>
           essay_wordCount e' = wordCount_of t \<and>
           essay_wordCount e' = length (split_re isSpace (trim t)) \<and>
           (trim t \<noteq> [] \<longrightarrow> essay_wordCount e' = spec_token_count t) \<and>
           essay_charCount e' = length t \<and>
           essay_results e' = essay_results e \<and>
           map essay_results (essays (snd (put_essay i b s))) = map essay_results (essays s) \<and>
           random (snd (put_essay i b s)) = random s"
    if f: "find (\<lambda>e. essay_id e = i) (essays s) = Some e"
      and r: "req_text b = Some t" "10 \<le> length t"
        "valid_level (or_else (req_level b) ''undergrad'')"
        "valid_status (or_else (req_status b) ''draft'')"
  proof -
    have ne: "t \<noteq> []"
      using r(2) by auto
    then have v: "update_valid (build_updateData b)"
      using r by (simp add: update_valid_iff valid_text_def)
    let ?e = "apply_update (build_updateData b) e"
    have "essay_text ?e = t" "essay_wordCount ?e = wordCount_of t"
      "essay_charCount ?e = length t"
      using r(1) ne by (simp_all add: apply_update_def build_updateData_fields)
    moreover have "trim t \<noteq> [] \<longrightarrow> wordCount_of t = spec_token_count t"
      using wordCount_tokens [of t] by simp
    ultimately show ?thesis
      using put_essay_success [OF f v] put_essay_frame [of i b s]
      by (simp add: apply_update_frame wordCount_of_def)
  qed
  have rejected: "put_essay i b s = (Failure 500 ''Failed to update essay'', s)"
    if "req_text b = Some t" "t \<noteq> []" "length t < 10"
  proof -
    have "\<not> update_valid (build_updateData b)"
      using that by (simp add: update_valid_iff valid_text_def)
    then show ?thesis
      by (simp add: put_essay_def findByIdAndUpdate_def)
  qed
  show ?thesis
    using accepted rejected by blast
qed

theorem update_text_witness:
  "(\<exists>e'. fst (put_essay 0 \<lparr>req_text = Some ''Dogs are nice too'', req_university = None,
                 req_level = None, req_status = None\<rparr>
               (snd (post_evaluate \<lparr>req_text = Some ''I like cats'', req_university = None,
                       req_level = None, req_status = None\<rparr> (init (\<lambda>n. 0))))) =
           Success 200 e' ''Essay updated successfully'' \<and>
         essay_text e' = ''Dogs are nice too'' \<and> essay_wordCount e' = 4 \<and>
         essay_charCount e' = 17 \<and>
         essay_results e' =
           Some (cast_results (fst (evaluateEssayAI ''I like cats'' (\<lambda>n. 0))))) \<and>
   put_essay 0 \<lparr>req_text = Some ''hi'', req_university = None, req_level = None,
                 req_status = None\<rparr>
             (snd (post_evaluate \<lparr>req_text = Some ''I like cats'', req_university = None,
                     req_level = None, req_status = None\<rparr> (init (\<lambda>n. 0)))) =
     (Failure 500 ''Failed to update essay'',
      snd (post_evaluate \<lparr>req_text = Some ''I like cats'', req_university = None,
             req_level = None, req_status = None\<rparr> (init (\<lambda>n. 0))))"
proof -
  let ?s = "snd (post_evaluate \<lparr>req_text = Some ''I like cats'', req_university = None,
                       req_level = None, req_status = None\<rparr> (init (\<lambda>n. 0)))"
  let ?b = "\<lparr>req_text = Some ''Dogs are nice too'', req_university = None,
                 req_level = None, req_status = None\<rparr>"
  let ?h = "\<lparr>req_text = Some ''hi'', req_university = None, req_level = None,
                 req_status = None\<rparr>"
  let ?e = "\<lparr>essay_id = 0, essay_text = ''I like cats'', essay_university = [],
             essay_level = ''undergrad'',
             essay_wordCount = wordCount (fst (evaluateEssayAI ''I like cats'' (\<lambda>n. 0))),
             essay_charCount = charCount (fst (evaluateEssayAI ''I like cats'' (\<lambda>n. 0))),
             essay_results = Some (cast_results (fst (evaluateEssayAI ''I like cats'' (\<lambda>n. 0)))),
             essay_status = ''evaluated''\<rparr>"
  have l: "\<not> length (trim ''I like cats'') < 10"
    by code_simp
  have s: "essays ?s = [?e]"
    using l by (simp add: post_evaluate_def Let_def split_def validate_def valid_text_def
        valid_level_def valid_status_def init_def)
  have f: "find (\<lambda>e. essay_id e = 0) (essays ?s) = Some ?e"
    by (simp only: s) simp
  have w: "wordCount_of ''Dogs are nice too'' = 4"
    by code_simp
  have "\<exists>e'. fst (put_essay 0 ?b ?s) = Success 200 e' ''Essay updated successfully'' \<and>
          find (\<lambda>e. essay_id e = 0) (essays (snd (put_essay 0 ?b ?s))) = Some e' \<and>
          essay_text e' = ''Dogs are nice too'' \<and>
          essay_wordCount e' = wordCount_of ''Dogs are nice too'' \<and>
          essay_wordCount e' = length (split_re isSpace (trim ''Dogs are nice too'')) \<and>
          (trim ''Dogs are nice too'' \<noteq> [] \<longrightarrow>
             essay_wordCount e' = spec_token_count ''Dogs are nice too'') \<and>
          essay_charCount e' = length ''Dogs are nice too'' \<and>
          essay_results e' = essay_results ?e \<and>
          map essay_results (essays (snd (put_essay 0 ?b ?s))) = map essay_results (essays ?s) \<and>
          random (snd (put_essay 0 ?b ?s)) = random ?s"
    using f update_text [of 0 ?s ?e ?b "''Dogs are nice too''"]
    by (simp add: valid_level_def valid_status_def)
  then obtain e' where
    "fst (put_essay 0 ?b ?s) = Success 200 e' ''Essay updated successfully''"
    "essay_text e' = ''Dogs are nice too''"
    "essay_wordCount e' = wordCount_of ''Dogs are nice too''"
    "essay_charCount e' = length ''Dogs are nice too''"
    "essay_results e' = essay_results ?e"
    by blast
  then have first: "\<exists>e'. fst (put_essay 0 ?b ?s) = Success 200 e' ''Essay updated successfully'' \<and>
         essay_text e' = ''Dogs are nice too'' \<and> essay_wordCount e' = 4 \<and>
         essay_charCount e' = 17 \<and>
         essay_results e' =
           Some (cast_results (fst (evaluateEssayAI ''I like cats'' (\<lambda>n. 0))))"
    using w by (intro exI [of _ e']) simp
  have second: "put_essay 0 ?h ?s = (Failure 500 ''Failed to update essay'', ?s)"
    using update_text [of 0 ?s ?e ?h "''hi''"] by simp
  show ?thesis
    using first second by blast
qed

text \<open>
  Claim C8, as stated, fails: an update that supplies the new text \<open>hi\<close> is rejected by
  the validator of the schema (answer 500) and the stored text is not replaced.
\<close>

theorem update_short_text_rejected:
  "fst (put_essay 0 \<lparr>req_text = Some ''hi'', req_university = None,
                 req_level = None, req_status = None\<rparr>
               (snd (post_evaluate \<lparr>req_text = Some ''I like cats'', req_university = None,
                       req_level = None, req_status = None\<rparr> (init (\<lambda>n. 0))))) =
     Failure 500 ''Failed to update essay'' \<and>
   map essay_text (essays (snd (put_essay 0 \<lparr>req_text = Some ''hi'', req_university = None,
                 req_level = None, req_status = None\<rparr>
               (snd (post_evaluate \<lparr>req_text = Some ''I like cats'', req_university = None,
                       req_level = None, req_status = None\<rparr> (init (\<lambda>n. 0))))))) =
     [''I like cats'']"
proof -
  have l: "\<not> length (trim ''I like cats'') < 10"
    by code_simp
  have v: "\<not> update_valid (build_updateData \<lparr>req_text = Some ''hi'', req_university = None,
                 req_level = None, req_status = None\<rparr>)"
    by (simp add: update_valid_iff valid_text_def)
  show ?thesis
    using l v
    by (simp add: put_essay_def findByIdAndUpdate_def post_evaluate_def Let_def split_def
        validate_def valid_text_def valid_level_def valid_status_def init_def)
qed

text \<open>
  Claim C9, as amended. Every document of a reachable state has an assessment attached
  and a status among \<open>draft\<close>, \<open>evaluated\<close> and \<open>archived\<close>: documents are created by the
  evaluation only, which attaches the assessment and sets the status \<open>evaluated\<close> in the
  same step, and no update or deletion removes an assessment. So the status
  \<open>evaluated\<close> implies that an assessment is present; the converse is not claimed.
\<close>

theorem assessment_invariant:
  assumes "reachable s" and "e \<in> set (essays s)"
  shows "essay_results e \<noteq> None \<and>
         valid_status (essay_status e) \<and>
         (essay_status e = ''evaluated'' \<longrightarrow> essay_results e \<noteq> None) \<and>
         (\<forall>b c e' m. fst (post_evaluate b s) = Success c e' m \<longrightarrow>
            essays (snd (post_evaluate b s)) = essays s @ [e'] \<and>
            essay_results e' \<noteq> None \<and> essay_status e' = ''evaluated'')"
  using reachable_docs [OF assms(1)] assms(2) post_evaluate_returned by blast

theorem assessment_invariant_witness:
  "reachable (snd (post_evaluate \<lparr>req_text = Some ''I like cats'', req_university = None,
                     req_level = None, req_status = None\<rparr> (init (\<lambda>n. 0)))) \<and>
   essays (snd (post_evaluate \<lparr>req_text = Some ''I like cats'', req_university = None,
                     req_level = None, req_status = None\<rparr> (init (\<lambda>n. 0)))) \<noteq> [] \<and>
   essay_results (hd (essays (snd (post_evaluate \<lparr>req_text = Some ''I like cats'',
                     req_university = None, req_level = None, req_status = None\<rparr>
                     (init (\<lambda>n. 0)))))) \<noteq> None"
proof -
  let ?s = "snd (post_evaluate \<lparr>req_text = Some ''I like cats'', req_university = None,
                     req_level = None, req_status = None\<rparr> (init (\<lambda>n. 0)))"
  have r: "reachable ?s"
    by (rule r_evaluate [OF r_init])
  have l: "\<not> length (trim ''I like cats'') < 10"
    by code_simp
  have n: "essays ?s \<noteq> []"
    using l by (simp add: post_evaluate_def Let_def split_def validate_def valid_text_def
        valid_level_def valid_status_def init_def)
  then have h: "hd (essays ?s) \<in> set (essays ?s)"
    by simp
  show ?thesis
    using r n assessment_invariant [OF r h] by simp
qed

text \<open>
  Claim C9, as stated, fails: after an evaluation, an update with the status \<open>archived\<close>
  leaves a reachable state whose document has an assessment and is not \<open>evaluated\<close>.
\<close>

theorem archived_with_assessment:
  "reachable (snd (put_essay 0 \<lparr>req_text = None, req_university = None, req_level = None,
                      req_status = Some ''archived''\<rparr>
               (snd (post_evaluate \<lparr>req_text = Some ''I like cats'', req_university = None,
                       req_level = None, req_status = None\<rparr> (init (\<lambda>n. 0)))))) \<and>
   map essay_status (essays (snd (put_essay 0 \<lparr>req_text = None, req_university = None,
                      req_level = None, req_status = Some ''archived''\<rparr>
               (snd (post_evaluate \<lparr>req_text = Some ''I like cats'', req_university = None,
                       req_level = None, req_status = None\<rparr> (init (\<lambda>n. 0))))))) =
     [''archived''] \<and>
   map (\<lambda>e. essay_results e = None) (essays (snd (put_essay 0 \<lparr>req_text = None,
                      req_university = None, req_level = None,
                      req_status = Some ''archived''\<rparr>
               (snd (post_evaluate \<lparr>req_text = Some ''I like cats'', req_university = None,
                       req_level = None, req_status = None\<rparr> (init (\<lambda>n. 0))))))) =
     [False]"
proof -
  have r: "reachable (snd (put_essay 0 \<lparr>req_text = None, req_university = None,
                      req_level = None, req_status = Some ''archived''\<rparr>
               (snd (post_evaluate \<lparr>req_text = Some ''I like cats'', req_university = None,
                       req_level = None, req_status = None\<rparr> (init (\<lambda>n. 0))))))"
    by (rule r_update [OF r_evaluate [OF r_init]])
  have l: "\<not> length (trim ''I like cats'') < 10"
    by code_simp
  have v: "update_valid (build_updateData \<lparr>req_text = None, req_university = None,
                      req_level = None, req_status = Some ''archived''\<rparr>)"
    by (simp add: update_valid_iff valid_level_def valid_status_def)
  show ?thesis
    using r l v
    by (simp add: put_essay_def findByIdAndUpdate_def post_evaluate_def Let_def split_def
        validate_def valid_text_def valid_level_def valid_status_def init_def
        apply_update_def build_updateData_fields)
qed

lemma put_essay_text:
  "list_all2 (\<lambda>e e'. essay_text e' = essay_text e \<or> 10 \<le> length (essay_text e'))
     (essays s) (essays (snd (put_essay i b s)))"
proof -
  have "essay_text (apply_update u e) = essay_text e \<or>
        10 \<le> length (essay_text (apply_update u e))" if "update_valid u" for u e
    using that by (auto simp: apply_update_def update_valid_def valid_text_def
        split: option.splits)
  then have "e' = e \<or> e' = apply_update (build_updateData b) e \<and>
               update_valid (build_updateData b) \<Longrightarrow>
             essay_text e' = essay_text e \<or> 10 \<le> length (essay_text e')" for e e'
    by blast
  then show ?thesis
    by (rule list_all2_mono [OF put_essay_pointwise])
qed

text \<open>
  Claim C10. In the update, an empty string supplied for \<open>text\<close>, \<open>level\<close> or \<open>status\<close>
  has the effect of the field being absent: the stored field keeps its value and the
  counts are not recomputed. An empty string supplied for \<open>university\<close> is stored. No
  update sets the text of a document to the empty string: every document keeps its text
  or receives one of at least 10 characters.
\<close>

theorem update_empty_strings:
  "put_essay i (b\<lparr>req_text := Some []\<rparr>) s = put_essay i (b\<lparr>req_text := None\<rparr>) s \<and>
   put_essay i (b\<lparr>req_level := Some []\<rparr>) s = put_essay i (b\<lparr>req_level := None\<rparr>) s \<and>
   put_essay i (b\<lparr>req_status := Some []\<rparr>) s = put_essay i (b\<lparr>req_status := None\<rparr>) s \<and>
   (\<forall>c e' m. find (\<lambda>e. essay_id e = i) (essays s) = Some e \<and>
       fst (put_essay i b s) = Success c e' m \<longrightarrow>
         (req_text b = Some [] \<longrightarrow>
            essay_text e' = essay_text e \<and> essay_wordCount e' = essay_wordCount e \<and>
            essay_charCount e' = essay_charCount e) \<and>
         (req_level b = Some [] \<longrightarrow> essay_level e' = essay_level e) \<and>
         (req_status b = Some [] \<longrightarrow> essay_status e' = essay_status e) \<and>
         (req_university b = Some [] \<longrightarrow> essay_university e' = [])) \<and>
   (find (\<lambda>e. essay_id e = i) (essays s) = Some e \<and> req_university b = Some [] \<and>
    update_valid (build_updateData b) \<longrightarrow>
      (\<exists>e'. fst (put_essay i b s) = Success 200 e' ''Essay updated successfully'' \<and>
            find (\<lambda>e. essay_id e = i) (essays (snd (put_essay i b s))) = Some e' \<and>
            essay_university e' = [])) \<and>
   list_all2 (\<lambda>e e'. essay_text e' = essay_text e \<or> 10 \<le> length (essay_text e'))
     (essays s) (essays (snd (put_essay i b s)))"
proof -
  have "build_updateData (b\<lparr>req_text := Some []\<rparr>) = build_updateData (b\<lparr>req_text := None\<rparr>)"
    "build_updateData (b\<lparr>req_level := Some []\<rparr>) = build_updateData (b\<lparr>req_level := None\<rparr>)"
    "build_updateData (b\<lparr>req_status := Some []\<rparr>) = build_updateData (b\<lparr>req_status := None\<rparr>)"
    by (rule updateData.equality; simp add: build_updateData_fields)+
  then have absent:
    "put_essay i (b\<lparr>req_text := Some []\<rparr>) s = put_essay i (b\<lparr>req_text := None\<rparr>) s"
    "put_essay i (b\<lparr>req_level := Some []\<rparr>) s = put_essay i (b\<lparr>req_level := None\<rparr>) s"
    "put_essay i (b\<lparr>req_status := Some []\<rparr>) s = put_essay i (b\<lparr>req_status := None\<rparr>) s"
    by (simp_all add: put_essay_def)
  have kept: "(req_text b = Some [] \<longrightarrow>
            essay_text e' = essay_text e \<and> essay_wordCount e' = essay_wordCount e \<and>
            essay_charCount e' = essay_charCount e) \<and>
         (req_level b = Some [] \<longrightarrow> essay_level e' = essay_level e) \<and>
         (req_status b = Some [] \<longrightarrow> essay_status e' = essay_status e) \<and>
         (req_university b = Some [] \<longrightarrow> essay_university e' = [])"
    if "find (\<lambda>e. essay_id e = i) (essays s) = Some e \<and>
        fst (put_essay i b s) = Success c e' m" for c e' m
  proof -
    have "e' = apply_update (build_updateData b) e"
      using that put_essay_returned [of i b s c e' m] by auto
    then show ?thesis
      by (simp add: apply_update_def build_updateData_fields)
  qed
  have cleared: "\<exists>e'. fst (put_essay i b s) = Success 200 e' ''Essay updated successfully'' \<and>
            find (\<lambda>e. essay_id e = i) (essays (snd (put_essay i b s))) = Some e' \<and>
            essay_university e' = []"
    if "find (\<lambda>e. essay_id e = i) (essays s) = Some e \<and> req_university b = Some [] \<and>
        update_valid (build_updateData b)"
    using that put_essay_success [of i s e b]
    by (simp add: apply_update_def build_updateData_fields)
  show ?thesis
    using absent kept cleared put_essay_text [of s i b] by blast
qed

theorem update_empty_strings_witness:
  "\<exists>e'. fst (put_essay 0 \<lparr>req_text = Some [], req_university = Some [], req_level = Some [],
                req_status = Some []\<rparr>
              (snd (post_evaluate \<lparr>req_text = Some ''I like cats'',
                      req_university = Some ''MIT'', req_level = Some ''mba'',
                      req_status = None\<rparr> (init (\<lambda>n. 0))))) =
          Success 200 e' ''Essay updated successfully'' \<and>
        essay_university e' = [] \<and> essay_text e' = ''I like cats'' \<and>
        essay_level e' = ''mba'' \<and> essay_status e' = ''evaluated''"
proof -
  let ?s = "snd (post_evaluate \<lparr>req_text = Some ''I like cats'',
                      req_university = Some ''MIT'', req_level = Some ''mba'',
                      req_status = None\<rparr> (init (\<lambda>n. 0)))"
  let ?b = "\<lparr>req_text = Some [], req_university = Some [], req_level = Some [],
                req_status = Some []\<rparr>"
  let ?e = "\<lparr>essay_id = 0, essay_text = ''I like cats'', essay_university = ''MIT'',
             essay_level = ''mba'',
             essay_wordCount = wordCount (fst (evaluateEssayAI ''I like cats'' (\<lambda>n. 0))),
             essay_charCount = charCount (fst (evaluateEssayAI ''I like cats'' (\<lambda>n. 0))),
             essay_results = Some (cast_results (fst (evaluateEssayAI ''I like cats'' (\<lambda>n. 0)))),
             essay_status = ''evaluated''\<rparr>"
  have l: "\<not> length (trim ''I like cats'') < 10"
    by code_simp
  have s: "essays ?s = [?e]"
    using l by (simp add: post_evaluate_def Let_def split_def validate_def valid_text_def
        valid_level_def valid_status_def init_def)
  have f: "find (\<lambda>e. essay_id e = 0) (essays ?s) = Some ?e"
    by (simp only: s) simp
  have v: "update_valid (build_updateData ?b)"
    by (simp add: update_valid_iff valid_level_def valid_status_def)
  note t = update_empty_strings [of 0 ?b ?s ?e]
  from t f v obtain e' where
    e': "fst (put_essay 0 ?b ?s) = Success 200 e' ''Essay updated successfully''"
      "essay_university e' = []"
    by auto
  from t f e'(1) have "essay_text e' = essay_text ?e \<and> essay_level e' = essay_level ?e \<and>
      essay_status e' = essay_status ?e"
    by auto
  with e' show ?thesis
    by (intro exI [of _ e']) simp
qed

end
